theory Spec2Isabelle
  imports Complex_Main
begin

section \<open>Data model of \<open>maixcam.py\<close>\<close>

text \<open>
  A blob is what \<open>find_blobs\<close> hands to the tracker: the methods \<open>area()\<close>,
  \<open>rect()\<close>, \<open>cx()\<close> and \<open>cy()\<close> of the camera library give integers. The
  rectangle is the tuple \<open>(x, y, w, h)\<close>.
\<close>

record blob =
  area :: int
  rect :: "int \<times> int \<times> int \<times> int"
  cx :: int
  cy :: int

text \<open>
  The module-level tuning constants that \<open>find_white_frame_center\<close> reads. They are
  gathered in a record so that properties can be stated for any tuning; the values of
  the file are \<open>source_config\<close>. Python floats are idealised as exact rationals:
  rounding of the float operations is not modelled.
\<close>

record config =
  max_area :: int
  min_w :: int
  min_h :: int
  max_w_ratio :: rat
  max_h_ratio :: rat
  min_aspect :: rat
  max_aspect :: rat
  min_density :: rat
  max_density :: rat
  relax_max_density :: rat
  center_weight :: rat
  track_weight :: rat
  edge_margin :: int

definition source_config :: config where
  "source_config =
     \<lparr> max_area = 15000, min_w = 25, min_h = 10,
       max_w_ratio = 85 / 100, max_h_ratio = 85 / 100,
       min_aspect = 3 / 10, max_aspect = 35 / 10,
       min_density = 1 / 100, max_density = 45 / 100, relax_max_density = 95 / 100,
       center_weight = 4 / 10, track_weight = 12 / 10,
       edge_margin = 0 \<rparr>"

text \<open>
  The three running bests of the loop. The source keeps each as two variables
  (\<open>best\<close> and \<open>best_score\<close>, ...) that are always assigned together; \<open>None\<close> is the
  initial \<open>None\<close> of both.
\<close>

record tiers =
  best :: "(blob \<times> rat) option"
  relaxed :: "(blob \<times> rat) option"
  fallback :: "(blob \<times> rat) option"

definition init_tiers :: tiers where
  "init_tiers = \<lparr> best = None, relaxed = None, fallback = None \<rparr>"

text \<open>The exceptions the body of the \<open>try\<close> can raise on a blob.\<close>

datatype py_error = ZeroDivisionError | EdgeException

section \<open>Scoring and the per-blob step\<close>

text \<open>Lines 79 to 86: the score of a blob that got past the size gates.\<close>

definition score :: "config \<Rightarrow> int \<Rightarrow> int \<Rightarrow> int \<Rightarrow> int \<Rightarrow> blob \<Rightarrow> rat" where
  "score cfg img_w img_h lx ly b =
     (let img_cx = of_int img_w / 2;
          img_cy = of_int img_h / 2;
          dx0 = of_int (cx b) - img_cx;
          dy0 = of_int (cy b) - img_cy;
          sc = of_int (area b) - center_weight cfg * (dx0 * dx0 + dy0 * dy0)
      in if lx \<noteq> 0 \<or> ly \<noteq> 0
         then (let dx1 = cx b - lx; dy1 = cy b - ly
               in sc - track_weight cfg * of_int (dx1 * dx1 + dy1 * dy1))
         else sc)"

text \<open>The test \<open>X is None or score > X_score\<close> that guards each running best.\<close>

definition better :: "rat \<Rightarrow> (blob \<times> rat) option \<Rightarrow> bool" where
  "better sc cur = (case cur of None \<Rightarrow> True | Some (_, cur_score) \<Rightarrow> sc > cur_score)"

text \<open>
  Lines 100 to 109: the strict tier. With a nonzero \<open>EDGE_MARGIN\<close> a centroid near an
  edge raises \<open>Exception("edge")\<close>.
\<close>

definition strict_tier :: "config \<Rightarrow> int \<Rightarrow> int \<Rightarrow> blob \<Rightarrow> rat \<Rightarrow> tiers \<Rightarrow> py_error + tiers" where
  "strict_tier cfg img_w img_h b sc s =
     (if edge_margin cfg \<noteq> 0 \<and> (cx b < edge_margin cfg \<or> cx b > img_w - edge_margin cfg)
      then Inl EdgeException
      else if edge_margin cfg \<noteq> 0 \<and> (cy b < edge_margin cfg \<or> cy b > img_h - edge_margin cfg)
      then Inl EdgeException
      else Inr (if better sc (best s) then s\<lparr>best := Some (b, sc)\<rparr> else s))"

text \<open>
  Lines 92 to 113: what follows the fallback update inside the \<open>try\<close>. \<open>Inl\<close> is an
  exception raised at that point, \<open>Inr\<close> the state when the body ends, by \<open>continue\<close>
  or by reaching its last line. The divisions raise on a zero divisor.
\<close>

definition tier_gates :: "config \<Rightarrow> int \<Rightarrow> int \<Rightarrow> blob \<Rightarrow> rat \<Rightarrow> tiers \<Rightarrow> py_error + tiers" where
  "tier_gates cfg img_w img_h b sc s =
     (case rect b of (_, _, w, h) \<Rightarrow>
        if h = 0 then Inl ZeroDivisionError
        else let aspect = (of_int w / of_int h :: rat) in
        if aspect < min_aspect cfg \<or> aspect > max_aspect cfg then Inr s
        else if w * h = 0 then Inl ZeroDivisionError
        else let density = (of_int (area b) / of_int (w * h) :: rat) in
        if density < min_density cfg \<or> density > relax_max_density cfg then Inr s
        else (case (if density \<le> max_density cfg then strict_tier cfg img_w img_h b sc s
                    else Inr s) of
                Inl e \<Rightarrow> Inl e
              | Inr s' \<Rightarrow>
                  Inr (if better sc (relaxed s') then s'\<lparr>relaxed := Some (b, sc)\<rparr> else s')))"

text \<open>
  Lines 65 to 115: one iteration of the loop over the blobs. The \<open>except\<close> clause
  catches whatever \<open>tier_gates\<close> raises and goes on with the next blob; the fallback
  assignment made before the exception stays.
\<close>

definition eval_blob :: "config \<Rightarrow> int \<Rightarrow> int \<Rightarrow> int \<Rightarrow> int \<Rightarrow> tiers \<Rightarrow> blob \<Rightarrow> tiers" where
  "eval_blob cfg img_w img_h lx ly s b =
     (if area b > max_area cfg then s
      else case rect b of (_, _, w, h) \<Rightarrow>
        if w < min_w cfg \<or> h < min_h cfg then s
        else if of_int w > of_int img_w * max_w_ratio cfg
                \<or> of_int h > of_int img_h * max_h_ratio cfg then s
        else let sc = score cfg img_w img_h lx ly b;
                 s1 = (if better sc (fallback s) then s\<lparr>fallback := Some (b, sc)\<rparr> else s)
             in case tier_gates cfg img_w img_h b sc s1 of
                  Inl e \<Rightarrow> s1
                | Inr s2 \<Rightarrow> s2)"

definition evaluate :: "config \<Rightarrow> int \<Rightarrow> int \<Rightarrow> int \<Rightarrow> int \<Rightarrow> blob list \<Rightarrow> tiers" where
  "evaluate cfg img_w img_h lx ly blobs = foldl (eval_blob cfg img_w img_h lx ly) init_tiers blobs"

section \<open>The tiered selector and the whole detector\<close>

text \<open>
  Lines 117 to 126. The result is \<open>(cx, cy, blob count, valid)\<close>; \<open>valid\<close> is the tier
  tag: 1 accepted (strict), 3 relaxed, 4 fallback, 0 none.
\<close>

definition select :: "tiers \<Rightarrow> int \<Rightarrow> int \<times> int \<times> int \<times> int" where
  "select s n =
     (case best s of Some (b, _) \<Rightarrow> (cx b, cy b, n, 1)
      | None \<Rightarrow>
     (case relaxed s of Some (b, _) \<Rightarrow> (cx b, cy b, n, 3)
      | None \<Rightarrow>
     (case fallback s of Some (b, _) \<Rightarrow> (cx b, cy b, n, 4)
      | None \<Rightarrow> (0, 0, n, 0))))"

text \<open>
  \<open>find_white_frame_center\<close>; the two images enter through the frame size and the list
  of blobs that \<open>find_blobs\<close> returned.
\<close>

definition find_white_frame_center ::
  "config \<Rightarrow> int \<Rightarrow> int \<Rightarrow> blob list \<Rightarrow> int \<Rightarrow> int \<Rightarrow> int \<times> int \<times> int \<times> int" where
  "find_white_frame_center cfg img_w img_h blobs lx ly =
     (if blobs = [] then (0, 0, 0, 0)
      else select (evaluate cfg img_w img_h lx ly blobs) (int (length blobs)))"

text \<open>The gates of lines 66 to 74, as the predicate "the blob reaches the scoring".\<close>

definition survives :: "config \<Rightarrow> int \<Rightarrow> int \<Rightarrow> blob \<Rightarrow> bool" where
  "survives cfg img_w img_h b =
     (case rect b of (_, _, w, h) \<Rightarrow>
        area b \<le> max_area cfg \<and> w \<ge> min_w cfg \<and> h \<ge> min_h cfg
        \<and> of_int w \<le> of_int img_w * max_w_ratio cfg
        \<and> of_int h \<le> of_int img_h * max_h_ratio cfg)"

section \<open>The frame loop: tracker state and serial link\<close>

text \<open>
  Lines 170 to 176: from the detector's result to the transmitted centroid, the
  reported \<open>out_valid\<close> and the new \<open>(last_cx, last_cy)\<close>.
\<close>

definition track_update ::
  "int \<times> int \<Rightarrow> int \<times> int \<times> int \<times> int \<Rightarrow> (int \<times> int) \<times> (int \<times> int \<times> int)" where
  "track_update prev r =
     (case r of (x, y, blob_cnt, valid) \<Rightarrow>
        let (x', y', out_valid) = (if valid = 0 then (0, 0, 0) else (x, y, valid));
            prev' = (if x' \<noteq> 0 \<and> y' \<noteq> 0 \<and> out_valid \<noteq> 0 then (x', y') else prev)
        in (prev', (x', y', out_valid)))"

text \<open>Lines 168 to 176 together: detection, then the state update.\<close>

definition track_frame ::
  "config \<Rightarrow> int \<Rightarrow> int \<Rightarrow> int \<times> int \<Rightarrow> blob list \<Rightarrow> (int \<times> int) \<times> (int \<times> int \<times> int)" where
  "track_frame cfg img_w img_h prev blobs =
     track_update prev (find_white_frame_center cfg img_w img_h blobs (fst prev) (snd prev))"

text \<open>
  The serial port is outside the program: what a call to the UART library does is an
  input of the model, \<open>Raises\<close> when it throws and \<open>Returns\<close> otherwise.
\<close>

datatype 'a outcome = Raises | Returns 'a

definition init_uart :: "'h outcome \<Rightarrow> 'h option" where
  "init_uart opened = (case opened of Returns h \<Rightarrow> Some h | Raises \<Rightarrow> None)"

definition send_coord :: "'h option \<Rightarrow> int \<Rightarrow> int \<Rightarrow> unit outcome \<Rightarrow> 'h option \<times> int" where
  "send_coord serial x y written =
     (case serial of None \<Rightarrow> (None, 0)
      | Some h \<Rightarrow> (case written of Returns _ \<Rightarrow> (Some h, 1) | Raises \<Rightarrow> (None, 0)))"

text \<open>
  Lines 179 to 183. The state is \<open>(serial, tx_count, last_tx_ok)\<close>; the last component
  of the result counts the calls of \<open>init_uart\<close> made in this frame.
\<close>

definition link_frame ::
  "'h option \<times> int \<times> int \<Rightarrow> int \<Rightarrow> int \<Rightarrow> unit outcome \<Rightarrow> 'h outcome
     \<Rightarrow> ('h option \<times> int \<times> int) \<times> nat" where
  "link_frame st x y written opened =
     (case st of (serial, tx_count, _) \<Rightarrow>
        let (serial1, last_tx_ok) = send_coord serial x y written;
            tx_count' = (if last_tx_ok \<noteq> 0 then tx_count + 1 else tx_count)
        in if serial1 = None
           then ((init_uart opened, tx_count', last_tx_ok), 1)
           else ((serial1, tx_count', last_tx_ok), 0))"

section \<open>Predicates on candidates\<close>

text \<open>
  The two derived quantities of lines 92 and 96. HOL's division by zero is 0; the
  predicates below only use them where the divisor is nonzero.
\<close>

definition aspect :: "blob \<Rightarrow> rat" where
  "aspect b = (case rect b of (_, _, w, h) \<Rightarrow> of_int w / of_int h)"

definition density :: "blob \<Rightarrow> rat" where
  "density b = (case rect b of (_, _, w, h) \<Rightarrow> of_int (area b) / of_int (w * h))"

text \<open>The centroid is closer than \<open>EDGE_MARGIN\<close> to one of the four frame edges.\<close>

definition near_edge :: "config \<Rightarrow> int \<Rightarrow> int \<Rightarrow> blob \<Rightarrow> bool" where
  "near_edge cfg img_w img_h b =
     (cx b < edge_margin cfg \<or> cx b > img_w - edge_margin cfg
      \<or> cy b < edge_margin cfg \<or> cy b > img_h - edge_margin cfg)"

text \<open>
  The blob got past the size gates, both divisions are defined, and aspect and
  density lie in the bands of lines 93 and 97.
\<close>

definition in_band :: "config \<Rightarrow> int \<Rightarrow> int \<Rightarrow> blob \<Rightarrow> bool" where
  "in_band cfg img_w img_h b =
     (survives cfg img_w img_h b
      \<and> (case rect b of (_, _, w, h) \<Rightarrow> h \<noteq> 0 \<and> w \<noteq> 0)
      \<and> min_aspect cfg \<le> aspect b \<and> aspect b \<le> max_aspect cfg
      \<and> min_density cfg \<le> density b \<and> density b \<le> relax_max_density cfg)"

text \<open>The blobs that reach the assignment of line 108, and those that reach line 112.\<close>

definition strict_ok :: "config \<Rightarrow> int \<Rightarrow> int \<Rightarrow> blob \<Rightarrow> bool" where
  "strict_ok cfg img_w img_h b =
     (in_band cfg img_w img_h b \<and> density b \<le> max_density cfg
      \<and> \<not> (edge_margin cfg \<noteq> 0 \<and> near_edge cfg img_w img_h b))"

definition relaxed_ok :: "config \<Rightarrow> int \<Rightarrow> int \<Rightarrow> blob \<Rightarrow> bool" where
  "relaxed_ok cfg img_w img_h b =
     (in_band cfg img_w img_h b
      \<and> \<not> (density b \<le> max_density cfg \<and> edge_margin cfg \<noteq> 0 \<and> near_edge cfg img_w img_h b))"

text \<open>
  The body of the \<open>try\<close> raises on the blob: it got past the size gates and
  \<open>tier_gates\<close> ends in an exception. Whether it does depends neither on the score nor
  on the running bests (lemma \<open>tier_gates_isl\<close>).
\<close>

definition raises :: "config \<Rightarrow> int \<Rightarrow> int \<Rightarrow> blob \<Rightarrow> bool" where
  "raises cfg img_w img_h b =
     (survives cfg img_w img_h b \<and> isl (tier_gates cfg img_w img_h b 0 init_tiers))"

text \<open>
  \<open>cur\<close> is what a running best holds after the blobs \<open>bs\<close>: nothing when no blob of
  \<open>bs\<close> is a candidate, else a candidate of \<open>bs\<close> with its key \<open>f\<close>, which no
  candidate of \<open>bs\<close> exceeds.
\<close>

definition running_best ::
  "(blob \<Rightarrow> bool) \<Rightarrow> (blob \<Rightarrow> rat) \<Rightarrow> blob list \<Rightarrow> (blob \<times> rat) option \<Rightarrow> bool" where
  "running_best P f bs cur =
     (case cur of
        None \<Rightarrow> (\<forall>b \<in> set bs. \<not> P b)
      | Some (b, sc) \<Rightarrow>
          b \<in> set bs \<and> P b \<and> sc = f b \<and> (\<forall>b' \<in> set bs. P b' \<longrightarrow> f b' \<le> sc))"

section \<open>Sample blobs\<close>

text \<open>A hollow square in the middle of the frame: density 0.25, aspect 1.\<close>

definition hollow_blob :: blob where
  "hollow_blob = \<lparr> area = 400, rect = (100, 100, 40, 40), cx = 120, cy = 120 \<rparr>"

text \<open>A nearly solid square: density 0.75, above \<open>MAX_DENSITY\<close>.\<close>

definition solid_blob :: blob where
  "solid_blob = \<lparr> area = 1200, rect = (60, 60, 40, 40), cx = 80, cy = 80 \<rparr>"

text \<open>Area 500 in a 30 by 15 box: density above \<open>RELAX_MAX_DENSITY\<close>.\<close>

definition dense_blob :: blob where
  "dense_blob = \<lparr> area = 500, rect = (40, 40, 30, 15), cx = 55, cy = 47 \<rparr>"

text \<open>Larger than \<open>MAX_AREA\<close>.\<close>

definition huge_blob :: blob where
  "huge_blob = \<lparr> area = 20000, rect = (20, 20, 200, 200), cx = 120, cy = 120 \<rparr>"

text \<open>Hollow squares whose centroids are 5 and 4 pixels from the left edge.\<close>

definition edge_blob :: blob where
  "edge_blob = \<lparr> area = 400, rect = (0, 100, 40, 40), cx = 5, cy = 120 \<rparr>"

definition rim_blob :: blob where
  "rim_blob = \<lparr> area = 500, rect = (0, 30, 50, 40), cx = 4, cy = 50 \<rparr>"

text \<open>A bounding box of height zero.\<close>

definition flat_blob :: blob where
  "flat_blob = \<lparr> area = 100, rect = (10, 20, 30, 0), cx = 25, cy = 20 \<rparr>"

text \<open>A hollow square whose centroid has \<open>x = 0\<close>.\<close>

definition axis_blob :: blob where
  "axis_blob = \<lparr> area = 400, rect = (0, 100, 40, 40), cx = 0, cy = 120 \<rparr>"

text \<open>The file's constants with the edge margin switched on, and with no minimum height.\<close>

definition margin_config :: config where
  "margin_config = source_config\<lparr>edge_margin := 10\<rparr>"

definition no_min_h_config :: config where
  "no_min_h_config = source_config\<lparr>min_h := 0\<rparr>"

section \<open>What one iteration does to each running best\<close>

lemma strict_tier_eq:
  "strict_tier cfg img_w img_h b sc s =
     (if edge_margin cfg \<noteq> 0 \<and> near_edge cfg img_w img_h b then Inl EdgeException
      else Inr (if better sc (best s) then s\<lparr>best := Some (b, sc)\<rparr> else s))"
  by (auto simp: strict_tier_def near_edge_def)

lemma eval_blob_best:
  "best (eval_blob cfg img_w img_h lx ly s b) =
     (if strict_ok cfg img_w img_h b \<and> better (score cfg img_w img_h lx ly b) (best s)
      then Some (b, score cfg img_w img_h lx ly b) else best s)"
  by (cases "rect b")
     (simp add: eval_blob_def tier_gates_def strict_ok_def in_band_def survives_def aspect_def
      density_def Let_def strict_tier_eq not_less not_le)

lemma eval_blob_relaxed:
  "relaxed (eval_blob cfg img_w img_h lx ly s b) =
     (if relaxed_ok cfg img_w img_h b \<and> better (score cfg img_w img_h lx ly b) (relaxed s)
      then Some (b, score cfg img_w img_h lx ly b) else relaxed s)"
  by (cases "rect b")
     (simp add: eval_blob_def tier_gates_def relaxed_ok_def in_band_def survives_def aspect_def
      density_def Let_def strict_tier_eq not_less not_le)

lemma eval_blob_fallback:
  "fallback (eval_blob cfg img_w img_h lx ly s b) =
     (if survives cfg img_w img_h b \<and> better (score cfg img_w img_h lx ly b) (fallback s)
      then Some (b, score cfg img_w img_h lx ly b) else fallback s)"
  by (cases "rect b")
     (simp add: eval_blob_def tier_gates_def survives_def Let_def strict_tier_eq not_less not_le)

lemma eval_blob_rejected:
  "\<not> survives cfg img_w img_h b \<Longrightarrow> eval_blob cfg img_w img_h lx ly s b = s"
  by (auto simp: survives_def eval_blob_def split: prod.splits)

lemma tier_gates_isl:
  "isl (tier_gates cfg img_w img_h b sc s) = isl (tier_gates cfg img_w img_h b 0 init_tiers)"
  by (cases "rect b") (simp add: tier_gates_def Let_def strict_tier_eq)

lemma raises_not_ok:
  "raises cfg img_w img_h b \<Longrightarrow> \<not> strict_ok cfg img_w img_h b \<and> \<not> relaxed_ok cfg img_w img_h b"
  by (cases "rect b")
     (auto simp: raises_def tier_gates_def Let_def strict_tier_eq strict_ok_def relaxed_ok_def
        in_band_def aspect_def density_def split: if_splits)

section \<open>The loop over the blobs\<close>

lemma running_best_step:
  assumes "running_best P f bs cur"
  shows "running_best P f (bs @ [b]) (if P b \<and> better (f b) cur then Some (b, f b) else cur)"
  using assms by (cases cur) (auto simp: running_best_def better_def)

lemma foldl_running_best:
  assumes step: "\<And>s b. sel (step s b) = (if P b \<and> better (f b) (sel s) then Some (b, f b) else sel s)"
  shows "running_best P f seen (sel s) \<Longrightarrow> running_best P f (seen @ bs) (sel (foldl step s bs))"
proof (induction bs arbitrary: s seen)
  case Nil
  then show ?case by simp
next
  case (Cons a bs)
  have "running_best P f (seen @ [a]) (sel (step s a))"
    using running_best_step [OF Cons.prems] by (simp add: step)
  from Cons.IH [OF this] show ?case by simp
qed

lemma foldl_sel_cong:
  assumes step: "\<And>s b. sel (step s b) = (if P b \<and> better (f b) (sel s) then Some (b, f b) else sel s)"
  shows "sel s = sel s' \<Longrightarrow> sel (foldl step s bs) = sel (foldl step s' bs)"
proof (induction bs arbitrary: s s')
  case Nil
  then show ?case by simp
next
  case (Cons a bs)
  have "sel (step s a) = sel (step s' a)" using Cons.prems by (simp add: step)
  from Cons.IH [OF this] show ?case by simp
qed

lemma evaluate_best:
  "running_best (strict_ok cfg img_w img_h) (score cfg img_w img_h lx ly) blobs
     (best (evaluate cfg img_w img_h lx ly blobs))"
  using foldl_running_best [where sel = best and seen = "[]" and s = init_tiers
      and step = "eval_blob cfg img_w img_h lx ly", OF eval_blob_best]
  by (simp add: evaluate_def running_best_def init_tiers_def)

lemma evaluate_relaxed:
  "running_best (relaxed_ok cfg img_w img_h) (score cfg img_w img_h lx ly) blobs
     (relaxed (evaluate cfg img_w img_h lx ly blobs))"
  using foldl_running_best [where sel = relaxed and seen = "[]" and s = init_tiers
      and step = "eval_blob cfg img_w img_h lx ly", OF eval_blob_relaxed]
  by (simp add: evaluate_def running_best_def init_tiers_def)

lemma evaluate_fallback:
  "running_best (survives cfg img_w img_h) (score cfg img_w img_h lx ly) blobs
     (fallback (evaluate cfg img_w img_h lx ly blobs))"
  using foldl_running_best [where sel = fallback and seen = "[]" and s = init_tiers
      and step = "eval_blob cfg img_w img_h lx ly", OF eval_blob_fallback]
  by (simp add: evaluate_def running_best_def init_tiers_def)

lemma foldl_rejected:
  "\<forall>b \<in> set bs. \<not> survives cfg img_w img_h b \<Longrightarrow>
     foldl (eval_blob cfg img_w img_h lx ly) s bs = s"
  by (induction bs arbitrary: s) (simp_all add: eval_blob_rejected)

lemma select_valid_zero:
  "(snd (snd (snd (select s n))) = 0) = (best s = None \<and> relaxed s = None \<and> fallback s = None)"
  by (auto simp: select_def split: option.splits)

lemma score_formula:
  "score cfg img_w img_h lx ly b =
     of_int (area b)
     - center_weight cfg * ((of_int (cx b) - of_int img_w / 2)\<^sup>2 + (of_int (cy b) - of_int img_h / 2)\<^sup>2)
     - (if lx \<noteq> 0 \<or> ly \<noteq> 0
        then track_weight cfg * of_int ((cx b - lx)\<^sup>2 + (cy b - ly)\<^sup>2) else 0)"
  by (simp add: score_def Let_def power2_eq_square)

lemma raises_step:
  assumes "raises cfg img_w img_h b"
  shows "eval_blob cfg img_w img_h lx ly s b =
           (if better (score cfg img_w img_h lx ly b) (fallback s)
            then s\<lparr>fallback := Some (b, score cfg img_w img_h lx ly b)\<rparr> else s)"
proof -
  let ?sc = "score cfg img_w img_h lx ly b"
  let ?s1 = "if better ?sc (fallback s) then s\<lparr>fallback := Some (b, ?sc)\<rparr> else s"
  from assms have sv: "survives cfg img_w img_h b"
    and "isl (tier_gates cfg img_w img_h b 0 init_tiers)"
    by (simp_all add: raises_def)
  then have "isl (tier_gates cfg img_w img_h b ?sc ?s1)"
    by (simp only: tier_gates_isl [of cfg img_w img_h b ?sc ?s1])
  then obtain e where e: "tier_gates cfg img_w img_h b ?sc ?s1 = Inl e"
    by (cases "tier_gates cfg img_w img_h b ?sc ?s1") simp_all
  obtain x y w h where r: "rect b = (x, y, w, h)" by (cases "rect b")
  from sv r e show ?thesis
    by (simp add: eval_blob_def survives_def Let_def not_less not_le)
qed

lemma source_never_raises: "\<not> raises source_config img_w img_h b"
  by (cases "rect b")
     (auto simp: raises_def survives_def source_config_def tier_gates_def strict_tier_eq Let_def)

section \<open>Evaluating the definitions on the sample blobs\<close>

lemmas sample_simps =
  source_config_def margin_config_def no_min_h_config_def
  hollow_blob_def solid_blob_def dense_blob_def huge_blob_def edge_blob_def rim_blob_def
  flat_blob_def axis_blob_def
  evaluate_def eval_blob_def tier_gates_def strict_tier_def score_def better_def init_tiers_def
  select_def find_white_frame_center_def Let_def survives_def track_frame_def track_update_def

section \<open>Tracker state\<close>

text \<open>
  C1. The claim reads: the stored centroid \<open>(last_cx, last_cy)\<close> is replaced by the
  frame's centroid exactly when the tier is accepted or relaxed, and a fallback or
  none frame leaves it alone. The loop tests \<open>cx and cy and out_valid\<close>, and
  \<open>out_valid\<close> is 4 on a fallback frame: the stored centroid is replaced exactly when
  the tier is accepted (1), relaxed (3) or fallback (4) and both coordinates of the
  centroid are nonzero; in every other frame it is unchanged.
\<close>

theorem track_state_update:
  assumes "find_white_frame_center cfg img_w img_h blobs (fst prev) (snd prev) = (x, y, n, valid)"
  shows "fst (track_frame cfg img_w img_h prev blobs)
           = (if (valid = 1 \<or> valid = 3 \<or> valid = 4) \<and> x \<noteq> 0 \<and> y \<noteq> 0 then (x, y) else prev)"
proof -
  have "snd (snd (snd (select s m))) \<in> {0, 1, 3, 4}" for s m
    by (simp add: select_def split: option.splits prod.splits)
  then have "snd (snd (snd (find_white_frame_center cfg img_w img_h blobs (fst prev) (snd prev)))) \<in> {0, 1, 3, 4}"
    by (simp add: find_white_frame_center_def)
  with assms have "valid \<in> {0, 1, 3, 4}" by simp
  with assms show ?thesis
    by (auto simp: track_frame_def track_update_def)
qed

text \<open>A relaxed frame at \<open>(80, 80)\<close> replaces the stored \<open>(100, 100)\<close>.\<close>

theorem track_state_update_witness:
  "find_white_frame_center source_config 240 240 [solid_blob] 100 100 = (80, 80, 1, 3)
   \<and> fst (track_frame source_config 240 240 (100, 100) [solid_blob]) = (80, 80)"
proof -
  have h: "find_white_frame_center source_config 240 240 [solid_blob]
             (fst (100, 100)) (snd (100, 100)) = (80, 80, 1, 3)"
    by (simp add: sample_simps)
  from track_state_update [OF h] h show ?thesis by simp
qed

text \<open>
  A frame whose only blob is too dense for the relaxed tier has tier fallback (4), and
  the stored centroid still moves from \<open>(100, 100)\<close> to that blob's \<open>(55, 47)\<close>.
\<close>

theorem fallback_updates_state_counterexample:
  "find_white_frame_center source_config 240 240 [dense_blob] 100 100 = (55, 47, 1, 4)
   \<and> fst (track_frame source_config 240 240 (100, 100) [dense_blob]) = (55, 47)"
  by (simp add: sample_simps)

section \<open>Edge margin\<close>

text \<open>
  C2. The claim reads: with a positive edge margin, a blob whose centroid is within
  the margin of a frame edge is kept out of the strict tier only and can still become
  the relaxed best. In the source the edge test sits inside the branch
  \<open>density <= MAX_DENSITY\<close> and leaves the iteration by an exception, before the
  relaxed assignment. So, for a positive margin and a centroid within it: the blob
  never becomes the strict best; it is offered to the relaxed tier only when it is in
  the aspect and density bands and its density is above \<open>MAX_DENSITY\<close> (then the edge
  test is not run); and it is offered to the fallback tier whenever it got past the
  size gates.
\<close>

theorem edge_margin_exclusion:
  assumes "edge_margin cfg > 0" and "near_edge cfg img_w img_h b"
  shows "best (eval_blob cfg img_w img_h lx ly s b) = best s
       \<and> relaxed (eval_blob cfg img_w img_h lx ly s b)
           = (if in_band cfg img_w img_h b \<and> max_density cfg < density b
                 \<and> better (score cfg img_w img_h lx ly b) (relaxed s)
              then Some (b, score cfg img_w img_h lx ly b) else relaxed s)
       \<and> fallback (eval_blob cfg img_w img_h lx ly s b)
           = (if survives cfg img_w img_h b \<and> better (score cfg img_w img_h lx ly b) (fallback s)
              then Some (b, score cfg img_w img_h lx ly b) else fallback s)"
  using assms by (auto simp: eval_blob_best eval_blob_relaxed eval_blob_fallback strict_ok_def relaxed_ok_def)

text \<open>A hollow square 5 pixels from the left edge, margin 10: fallback only.\<close>

theorem edge_margin_exclusion_witness:
  "edge_margin margin_config > 0 \<and> near_edge margin_config 240 240 edge_blob
   \<and> best (eval_blob margin_config 240 240 0 0 init_tiers edge_blob) = None
   \<and> relaxed (eval_blob margin_config 240 240 0 0 init_tiers edge_blob) = None
   \<and> fallback (eval_blob margin_config 240 240 0 0 init_tiers edge_blob) = Some (edge_blob, - 4890)"
proof -
  have h1: "edge_margin margin_config > 0" by (simp add: sample_simps)
  have h2: "near_edge margin_config 240 240 edge_blob" by (simp add: near_edge_def sample_simps)
  from edge_margin_exclusion [OF h1 h2, of 0 0 init_tiers] h1 h2 show ?thesis
    by (simp add: in_band_def aspect_def density_def sample_simps)
qed

text \<open>
  The same blob passes the aspect gate and the relaxed density gate, and yet the
  relaxed best stays empty and the frame's tier is fallback (4).
\<close>

theorem edge_blob_not_relaxed_counterexample:
  "edge_margin margin_config > 0 \<and> near_edge margin_config 240 240 edge_blob
   \<and> survives margin_config 240 240 edge_blob
   \<and> min_aspect margin_config \<le> aspect edge_blob \<and> aspect edge_blob \<le> max_aspect margin_config
   \<and> min_density margin_config \<le> density edge_blob
   \<and> density edge_blob \<le> relax_max_density margin_config
   \<and> relaxed (evaluate margin_config 240 240 0 0 [edge_blob]) = None
   \<and> find_white_frame_center margin_config 240 240 [edge_blob] 0 0 = (5, 120, 1, 4)"
  by (simp add: near_edge_def aspect_def density_def sample_simps)

section \<open>Fallback tier and tier order\<close>

text \<open>
  C3. Whenever some blob of the frame gets past the gates of lines 66 to 74 (area at
  most \<open>MAX_AREA\<close>, width and height at least \<open>MIN_W\<close> and \<open>MIN_H\<close>, and at most the
  given fractions of the frame), the fallback best is not empty after the loop, and
  the tier returned is not none (0).
\<close>

theorem fallback_never_empty:
  assumes "\<exists>b \<in> set blobs. survives cfg img_w img_h b"
  shows "fallback (evaluate cfg img_w img_h lx ly blobs) \<noteq> None
         \<and> snd (snd (snd (find_white_frame_center cfg img_w img_h blobs lx ly))) \<noteq> 0"
proof -
  have rb: "running_best (survives cfg img_w img_h) (score cfg img_w img_h lx ly) blobs
              (fallback (evaluate cfg img_w img_h lx ly blobs))"
    by (rule evaluate_fallback)
  have f: "fallback (evaluate cfg img_w img_h lx ly blobs) \<noteq> None"
  proof
    assume "fallback (evaluate cfg img_w img_h lx ly blobs) = None"
    with rb have "\<forall>b \<in> set blobs. \<not> survives cfg img_w img_h b"
      by (simp add: running_best_def)
    with assms show False by blast
  qed
  from assms have "blobs \<noteq> []" by auto
  with f show ?thesis
    by (simp add: find_white_frame_center_def select_valid_zero)
qed

theorem fallback_never_empty_witness:
  "survives source_config 240 240 dense_blob
   \<and> fallback (evaluate source_config 240 240 0 0 [huge_blob, dense_blob]) \<noteq> None
   \<and> find_white_frame_center source_config 240 240 [huge_blob, dense_blob] 0 0 = (55, 47, 2, 4)"
proof -
  have s: "survives source_config 240 240 dense_blob" by (simp add: sample_simps)
  then have h: "\<exists>b \<in> set [huge_blob, dense_blob]. survives source_config 240 240 b" by simp
  have r: "find_white_frame_center source_config 240 240 [huge_blob, dense_blob] 0 0 = (55, 47, 2, 4)"
    by (simp add: sample_simps)
  from fallback_never_empty [OF h, of 0 0] s r show ?thesis by simp
qed

text \<open>
  C4. The result is taken from the first nonempty best in the order strict, relaxed,
  fallback, with the tags 1, 3, 4, and is \<open>(0, 0)\<close> with tag 0 when all three are
  empty; the count is the number of blobs of the frame. In particular a nonempty
  strict best always gives tag 1.
\<close>

theorem tier_resolution_order:
  "find_white_frame_center cfg img_w img_h blobs lx ly =
     (let s = evaluate cfg img_w img_h lx ly blobs; n = int (length blobs) in
      case best s of Some (b, sc) \<Rightarrow> (cx b, cy b, n, 1) | None \<Rightarrow>
     (case relaxed s of Some (b, sc) \<Rightarrow> (cx b, cy b, n, 3) | None \<Rightarrow>
     (case fallback s of Some (b, sc) \<Rightarrow> (cx b, cy b, n, 4) | None \<Rightarrow> (0, 0, n, 0))))
   \<and> (best (evaluate cfg img_w img_h lx ly blobs) \<noteq> None \<longrightarrow>
        snd (snd (snd (find_white_frame_center cfg img_w img_h blobs lx ly))) = 1)"
  by (cases "blobs = []")
     (auto simp: find_white_frame_center_def select_def Let_def evaluate_def init_tiers_def
        split: option.splits)

theorem tier_resolution_order_witness:
  "best (evaluate source_config 240 240 0 0 [dense_blob, solid_blob, hollow_blob]) \<noteq> None
   \<and> find_white_frame_center source_config 240 240 [dense_blob, solid_blob, hollow_blob] 0 0
       = (120, 120, 3, 1)
   \<and> find_white_frame_center source_config 240 240 [dense_blob, solid_blob] 0 0 = (80, 80, 2, 3)"
  using tier_resolution_order [of source_config 240 240 "[dense_blob, solid_blob, hollow_blob]" 0 0]
    tier_resolution_order [of source_config 240 240 "[dense_blob, solid_blob]" 0 0]
  by (simp add: sample_simps)

section \<open>The score\<close>

text \<open>
  C5. The score of a blob is its area minus \<open>CENTER_WEIGHT\<close> times the squared
  distance of its centroid from the frame centre, minus \<open>TRACK_WEIGHT\<close> times the
  squared distance from the previous centroid exactly when \<open>last_cx\<close> or \<open>last_cy\<close>
  is nonzero. Each of the three bests is ranked by this one score: after the loop it
  holds a candidate of its tier together with its score, and no candidate of that tier
  in the frame has a larger score.
\<close>

theorem score_is_ranking_key:
  "score cfg img_w img_h lx ly b =
     of_int (area b)
     - center_weight cfg * ((of_int (cx b) - of_int img_w / 2)\<^sup>2 + (of_int (cy b) - of_int img_h / 2)\<^sup>2)
     - (if lx \<noteq> 0 \<or> ly \<noteq> 0
        then track_weight cfg * of_int ((cx b - lx)\<^sup>2 + (cy b - ly)\<^sup>2) else 0)
   \<and> running_best (strict_ok cfg img_w img_h) (score cfg img_w img_h lx ly) blobs
       (best (evaluate cfg img_w img_h lx ly blobs))
   \<and> running_best (relaxed_ok cfg img_w img_h) (score cfg img_w img_h lx ly) blobs
       (relaxed (evaluate cfg img_w img_h lx ly blobs))
   \<and> running_best (survives cfg img_w img_h) (score cfg img_w img_h lx ly) blobs
       (fallback (evaluate cfg img_w img_h lx ly blobs))"
  by (intro conjI score_formula evaluate_best evaluate_relaxed evaluate_fallback)

theorem score_is_ranking_key_witness:
  "score source_config 240 240 100 100 solid_blob = 1200 - 4 / 10 * 3200 - 12 / 10 * 800
   \<and> best (evaluate source_config 240 240 100 100 [dense_blob, solid_blob, hollow_blob])
       = Some (hollow_blob, - 560)
   \<and> relaxed (evaluate source_config 240 240 100 100 [dense_blob, solid_blob, hollow_blob])
       = Some (hollow_blob, - 560)
   \<and> fallback (evaluate source_config 240 240 100 100 [dense_blob, solid_blob, hollow_blob])
       = Some (hollow_blob, - 560)
   \<and> score source_config 240 240 100 100 dense_blob \<le> - 560
   \<and> score source_config 240 240 100 100 solid_blob \<le> - 560"
  using score_is_ranking_key [of source_config 240 240 100 100 solid_blob
      "[dense_blob, solid_blob, hollow_blob]"]
  by (simp add: sample_simps)

text \<open>
  C6. Two blobs of equal area and equal squared distance from the frame centre, a
  positive \<open>TRACK_WEIGHT\<close> and a previous centroid that is set: the blob strictly
  closer to the previous centroid has the strictly larger score.
\<close>

theorem continuity_bias:
  assumes "area A = area B"
    and "(of_int (cx A) - of_int img_w / 2)\<^sup>2 + (of_int (cy A) - of_int img_h / 2)\<^sup>2
         = ((of_int (cx B) - of_int img_w / 2)\<^sup>2 + (of_int (cy B) - of_int img_h / 2)\<^sup>2 :: rat)"
    and "track_weight cfg > 0" and "lx \<noteq> 0 \<or> ly \<noteq> 0"
    and "(cx B - lx)\<^sup>2 + (cy B - ly)\<^sup>2 < (cx A - lx)\<^sup>2 + (cy A - ly)\<^sup>2"
  shows "score cfg img_w img_h lx ly A < score cfg img_w img_h lx ly B"
proof -
  have "(of_int ((cx B - lx)\<^sup>2 + (cy B - ly)\<^sup>2) :: rat) < of_int ((cx A - lx)\<^sup>2 + (cy A - ly)\<^sup>2)"
    using assms(5) by (simp only: of_int_less_iff)
  then have "track_weight cfg * of_int ((cx B - lx)\<^sup>2 + (cy B - ly)\<^sup>2)
             < track_weight cfg * of_int ((cx A - lx)\<^sup>2 + (cy A - ly)\<^sup>2)"
    using assms(3) by (simp only: mult_less_cancel_left_pos)
  then show ?thesis
    using assms(1,2,4) by (simp add: score_formula)
qed

theorem continuity_bias_witness:
  "score source_config 240 240 150 120 (hollow_blob\<lparr>cx := 100\<rparr>) = - 2760
   \<and> score source_config 240 240 150 120 (hollow_blob\<lparr>cx := 140\<rparr>) = 120
   \<and> score source_config 240 240 150 120 (hollow_blob\<lparr>cx := 100\<rparr>)
       < score source_config 240 240 150 120 (hollow_blob\<lparr>cx := 140\<rparr>)"
proof -
  let ?A = "hollow_blob\<lparr>cx := 100\<rparr>" and ?B = "hollow_blob\<lparr>cx := 140\<rparr>"
  have h1: "area ?A = area ?B" by simp
  have h2: "(of_int (cx ?A) - of_int 240 / 2)\<^sup>2 + (of_int (cy ?A) - of_int 240 / 2)\<^sup>2
         = ((of_int (cx ?B) - of_int 240 / 2)\<^sup>2 + (of_int (cy ?B) - of_int 240 / 2)\<^sup>2 :: rat)"
    by (simp add: hollow_blob_def)
  have h3: "track_weight source_config > 0" by (simp add: source_config_def)
  have h4: "(150::int) \<noteq> 0 \<or> (120::int) \<noteq> 0" by simp
  have h5: "(cx ?B - 150)\<^sup>2 + (cy ?B - 120)\<^sup>2 < (cx ?A - 150)\<^sup>2 + (cy ?A - 120)\<^sup>2"
    by (simp add: hollow_blob_def)
  from continuity_bias [OF h1 h2 h3 h4 h5] show ?thesis
    by (simp add: sample_simps)
qed

section \<open>No detection\<close>

text \<open>
  C7. When no blob of the frame gets past the size gates, the result is the centroid
  \<open>(0, 0)\<close> with tier none (0); for the empty frame the blob count is 0 as well.
\<close>

theorem no_survivor_none:
  "((\<forall>b \<in> set blobs. \<not> survives cfg img_w img_h b) \<longrightarrow>
      find_white_frame_center cfg img_w img_h blobs lx ly = (0, 0, int (length blobs), 0))
   \<and> find_white_frame_center cfg img_w img_h [] lx ly = (0, 0, 0, 0)"
  by (simp add: find_white_frame_center_def evaluate_def foldl_rejected select_def init_tiers_def)

theorem no_survivor_none_witness:
  "\<not> survives source_config 240 240 huge_blob
   \<and> find_white_frame_center source_config 240 240 [huge_blob] 100 100 = (0, 0, 1, 0)"
proof -
  have s: "\<not> survives source_config 240 240 huge_blob" by (simp add: sample_simps)
  then have h: "\<forall>b \<in> set [huge_blob]. \<not> survives source_config 240 240 b" by simp
  from no_survivor_none [of "[huge_blob]" source_config 240 240 100 100] h s show ?thesis by simp
qed

section \<open>Serial link\<close>

text \<open>
  C8. \<open>send_coord\<close> never raises: given a handle and a write that succeeds it
  returns that handle with 1; given a handle and a write that raises, or no handle, it
  returns no handle with 0. A frame whose write succeeds keeps the handle, counts the
  transmission and does not call \<open>init_uart\<close>. A frame that is left without a
  handle calls \<open>init_uart\<close> exactly once and ends with what that call gave; no frame
  calls it more than once. When that call fails, the next frame calls \<open>init_uart\<close>
  again, and if it succeeds there, the frame after it writes through the new handle
  and keeps it.
\<close>

theorem link_never_locks:
  "send_coord (Some h) x y (Returns ()) = (Some h, 1)
   \<and> send_coord (Some h) x y Raises = (None, 0)
   \<and> send_coord None x y written = (None, 0)
   \<and> init_uart (Returns h) = Some h
   \<and> init_uart Raises = (None :: 'h option)
   \<and> link_frame (Some h, n, ok) x y (Returns ()) opened = ((Some h, n + 1, 1), 0)
   \<and> link_frame (Some h, n, ok) x y Raises opened = ((init_uart opened, n, 0), 1)
   \<and> link_frame (None, n, ok) x y written opened = ((init_uart opened, n, 0), 1)
   \<and> (send_coord serial x y written = (serial, 1) \<and> serial \<noteq> None \<and> written = Returns ()
      \<or> send_coord serial x y written = (None, 0))
   \<and> snd (link_frame (serial, n, ok) x y written opened) \<le> 1
   \<and> (snd (link_frame (serial, n, ok) x y written opened) = 1)
       = (fst (send_coord serial x y written) = None)
   \<and> (fst (send_coord serial x y written) = None \<longrightarrow>
        fst (fst (link_frame (serial, n, ok) x y written opened)) = init_uart opened)
   \<and> (fst (fst (link_frame (serial, n, ok) x y written Raises)) = None \<longrightarrow>
        link_frame (fst (link_frame (serial, n, ok) x y written Raises)) x' y' written' (Returns h)
          = ((Some h, n, 0), 1)
        \<and> link_frame (fst (link_frame (fst (link_frame (serial, n, ok) x y written Raises))
                               x' y' written' (Returns h)))
            x'' y'' (Returns ()) opened' = ((Some h, n + 1, 1), 0))"
  by (cases serial; cases written)
     (simp_all add: send_coord_def link_frame_def init_uart_def)

text \<open>
  A successful write through handle 7; then a write that raises followed by an open
  that raises, an open in the next frame that gives handle 8, and a write through it.
\<close>

theorem link_never_locks_witness:
  "send_coord (Some (7::nat)) 55 47 (Returns ()) = (Some 7, 1)
   \<and> link_frame (Some (7::nat), 3, 0) 55 47 (Returns ()) Raises = ((Some 7, 4, 1), 0)
   \<and> send_coord (Some (7::nat)) 55 47 Raises = (None, 0)
   \<and> link_frame (Some (7::nat), 3, 1) 55 47 Raises Raises = ((None, 3, 0), 1)
   \<and> link_frame (fst (link_frame (Some (7::nat), 3, 1) 55 47 Raises Raises)) 0 0 (Returns ()) (Returns 8)
       = ((Some 8, 3, 0), 1)
   \<and> link_frame (fst (link_frame (fst (link_frame (Some (7::nat), 3, 1) 55 47 Raises Raises))
                          0 0 (Returns ()) (Returns 8)))
        80 80 (Returns ()) Raises = ((Some 8, 4, 1), 0)"
  using link_never_locks [of 7 55 47 "Returns ()" 3 0 Raises]
    link_never_locks [of 8 55 47 Raises 3 1 Raises "Some (7::nat)" 0 0 "Returns ()" 80 80 Raises]
  by (simp add: send_coord_def link_frame_def init_uart_def)

section \<open>Exceptions inside the loop\<close>

text \<open>
  C9. An exception raised while a blob is evaluated is caught inside that blob's own
  iteration: the loop goes on with the next blob and always ends with a value. The
  blob that raised is kept out of the tier bests decided after the point of failure:
  the strict and relaxed bests of the frame are those of the frame without it. The
  one assignment that precedes every statement that can raise is the fallback one of
  line 89, so the iteration changes nothing but the fallback best, which after the
  loop is the best-scoring blob among all that got past the size gates. With the
  constants of the file no iteration raises, and a blob whose box has width or height
  zero is dropped by the size gate of line 71: all three bests of the frame are those
  of the frame without it.
\<close>

theorem evaluation_error_is_local:
  "(raises cfg img_w img_h b \<longrightarrow>
      eval_blob cfg img_w img_h lx ly s b =
           (if better (score cfg img_w img_h lx ly b) (fallback s)
            then s\<lparr>fallback := Some (b, score cfg img_w img_h lx ly b)\<rparr> else s)
       \<and> best (evaluate cfg img_w img_h lx ly (xs @ b # ys))
           = best (evaluate cfg img_w img_h lx ly (xs @ ys))
       \<and> relaxed (evaluate cfg img_w img_h lx ly (xs @ b # ys))
           = relaxed (evaluate cfg img_w img_h lx ly (xs @ ys))
       \<and> running_best (survives cfg img_w img_h) (score cfg img_w img_h lx ly) (xs @ b # ys)
           (fallback (evaluate cfg img_w img_h lx ly (xs @ b # ys))))
   \<and> \<not> raises source_config img_w img_h b
   \<and> ((case rect b of (_, _, w, h) \<Rightarrow> w = 0 \<or> h = 0) \<longrightarrow>
        eval_blob source_config img_w img_h lx ly s b = s
        \<and> evaluate source_config img_w img_h lx ly (xs @ b # ys)
            = evaluate source_config img_w img_h lx ly (xs @ ys))"
proof -
  let ?step = "eval_blob cfg img_w img_h lx ly"
  let ?sx = "foldl ?step init_tiers xs"
  have A: "eval_blob cfg img_w img_h lx ly s b =
           (if better (score cfg img_w img_h lx ly b) (fallback s)
            then s\<lparr>fallback := Some (b, score cfg img_w img_h lx ly b)\<rparr> else s)
       \<and> best (evaluate cfg img_w img_h lx ly (xs @ b # ys))
           = best (evaluate cfg img_w img_h lx ly (xs @ ys))
       \<and> relaxed (evaluate cfg img_w img_h lx ly (xs @ b # ys))
           = relaxed (evaluate cfg img_w img_h lx ly (xs @ ys))
       \<and> running_best (survives cfg img_w img_h) (score cfg img_w img_h lx ly) (xs @ b # ys)
           (fallback (evaluate cfg img_w img_h lx ly (xs @ b # ys)))"
    if rs: "raises cfg img_w img_h b"
  proof -
    from rs have no: "\<not> strict_ok cfg img_w img_h b" "\<not> relaxed_ok cfg img_w img_h b"
      using raises_not_ok by blast+
    have b: "best (?step ?sx b) = best ?sx" using no by (simp add: eval_blob_best)
    have r: "relaxed (?step ?sx b) = relaxed ?sx" using no by (simp add: eval_blob_relaxed)
    have "best (foldl ?step (?step ?sx b) ys) = best (foldl ?step ?sx ys)"
      using b by (rule foldl_sel_cong [where sel = best, OF eval_blob_best])
    then have c2: "best (evaluate cfg img_w img_h lx ly (xs @ b # ys))
                     = best (evaluate cfg img_w img_h lx ly (xs @ ys))"
      by (simp add: evaluate_def)
    have "relaxed (foldl ?step (?step ?sx b) ys) = relaxed (foldl ?step ?sx ys)"
      using r by (rule foldl_sel_cong [where sel = relaxed, OF eval_blob_relaxed])
    then have c3: "relaxed (evaluate cfg img_w img_h lx ly (xs @ b # ys))
                     = relaxed (evaluate cfg img_w img_h lx ly (xs @ ys))"
      by (simp add: evaluate_def)
    from raises_step [OF rs] c2 c3 evaluate_fallback show ?thesis
      by blast
  qed
  have C: "eval_blob source_config img_w img_h lx ly s b = s
        \<and> evaluate source_config img_w img_h lx ly (xs @ b # ys)
            = evaluate source_config img_w img_h lx ly (xs @ ys)"
    if d: "case rect b of (_, _, w, h) \<Rightarrow> w = 0 \<or> h = 0"
  proof -
    from d have "\<not> survives source_config img_w img_h b"
      by (auto simp: survives_def source_config_def split: prod.splits)
    then have "eval_blob source_config img_w img_h lx ly t b = t" for t
      by (rule eval_blob_rejected)
    then show ?thesis by (simp add: evaluate_def)
  qed
  from A source_never_raises C show ?thesis by blast
qed

text \<open>
  A box of height zero between two ordinary blobs: with \<open>MIN_H\<close> set to 0 it raises
  at line 92, the strict and relaxed bests are unaffected and it has been offered to
  the fallback tier; with the constants of the file it does not raise and is dropped.
\<close>

theorem evaluation_error_is_local_witness:
  "raises no_min_h_config 240 240 flat_blob
   \<and> best (evaluate no_min_h_config 240 240 0 0 ([solid_blob] @ flat_blob # [hollow_blob]))
       = Some (hollow_blob, 400)
   \<and> relaxed (evaluate no_min_h_config 240 240 0 0 ([solid_blob] @ flat_blob # [hollow_blob]))
       = Some (hollow_blob, 400)
   \<and> fallback (evaluate no_min_h_config 240 240 0 0 ([solid_blob] @ flat_blob # [hollow_blob]))
       = Some (hollow_blob, 400)
   \<and> fallback (evaluate no_min_h_config 240 240 0 0 [flat_blob]) = Some (flat_blob, - 7510)
   \<and> rect flat_blob = (10, 20, 30, 0)
   \<and> \<not> raises source_config 240 240 flat_blob
   \<and> evaluate source_config 240 240 0 0 ([solid_blob] @ flat_blob # [hollow_blob])
       = evaluate source_config 240 240 0 0 ([solid_blob] @ [hollow_blob])
   \<and> find_white_frame_center source_config 240 240 [flat_blob] 0 0 = (0, 0, 1, 0)
   \<and> find_white_frame_center source_config 240 240 [rim_blob] 0 0 = (4, 50, 1, 1)"
  using evaluation_error_is_local
     [of no_min_h_config 240 240 flat_blob 0 0 init_tiers "[solid_blob]" "[hollow_blob]"]
    evaluation_error_is_local
     [of source_config 240 240 flat_blob 0 0 init_tiers "[solid_blob]" "[hollow_blob]"]
  by (simp add: raises_def sample_simps)

section \<open>Centroids on the zero lines\<close>

text \<open>
  C10. When the centroid of the frame has \<open>cx = 0\<close> or \<open>cy = 0\<close>, the stored
  centroid is unchanged, whatever the tier.
\<close>

theorem zero_coordinate_never_anchors:
  assumes "find_white_frame_center cfg img_w img_h blobs (fst prev) (snd prev) = (x, y, n, valid)"
    and "x = 0 \<or> y = 0"
  shows "fst (track_frame cfg img_w img_h prev blobs) = prev"
  using assms by (auto simp: track_frame_def track_update_def)

text \<open>An accepted detection at \<open>(0, 120)\<close> leaves the stored \<open>(100, 100)\<close>.\<close>

theorem zero_coordinate_never_anchors_witness:
  "find_white_frame_center source_config 240 240 [axis_blob] 100 100 = (0, 120, 1, 1)
   \<and> fst (track_frame source_config 240 240 (100, 100) [axis_blob]) = (100, 100)"
proof -
  have h: "find_white_frame_center source_config 240 240 [axis_blob]
             (fst (100, 100)) (snd (100, 100)) = (0, 120, 1, 1)"
    by (simp add: sample_simps)
  from zero_coordinate_never_anchors [OF h] h show ?thesis by simp
qed

end
